theory Spec2Isabelle
  imports Main "HOL-Library.Multiset" "HOL-Library.Char_ord" "HOL-Library.List_Lexorder"
begin

section \<open>Values and errors shared by both modules\<close>

text \<open>
  The profile row and the filter object are typed \<^verbatim>\<open>any\<close> in the source, so the fields
  the code inspects with JavaScript truthiness are modelled as JavaScript values.
  Numbers are integers here (the only number the code could meet in these fields is
  tested for truthiness alone). \<open>JObj\<close> stands for any non-array object.
\<close>

datatype jsval =
    JUndefined
  | JNull
  | JBool bool
  | JNum int
  | JStr string
  | JArr "jsval list"
  | JObj

fun truthy :: "jsval \<Rightarrow> bool" where
  "truthy JUndefined = False"
| "truthy JNull = False"
| "truthy (JBool b) = b"
| "truthy (JNum n) = (n \<noteq> 0)"
| "truthy (JStr s) = (s \<noteq> [])"
| "truthy (JArr xs) = True"
| "truthy JObj = True"

text \<open>
  Errors are values. \<open>PostgrestError code message\<close> is what the backend client returns
  in the \<^verbatim>\<open>error\<close> field of a response; the others are exceptions of the runtime.
\<close>

datatype js_error =
    PostgrestError string string
  | StorageError string
  | AuthError string
  | TypeError
  | RangeError
  | Error string

fun error_code :: "js_error \<Rightarrow> string option" where
  "error_code (PostgrestError c m) = Some c"
| "error_code _ = None"

text \<open>
  A backend call is awaited: it either resolves to a \<^verbatim>\<open>{ data, error }\<close> response or
  rejects (throws at the \<^verbatim>\<open>await\<close>).
\<close>

record 'a response =
  data :: "'a option"
  error :: "js_error option"

datatype 'a awaited = Resolved 'a | Thrown js_error

section \<open>Auth/session context\<close>

record auth_user =
  u_id :: string
  u_email :: string
  u_metadata_name :: jsval

record session =
  s_user :: "auth_user option"

record profile_row =
  p_id :: string
  p_name :: string
  p_email :: string
  p_role :: jsval
  p_roles :: jsval

text \<open>The six \<^verbatim>\<open>useState\<close> cells of \<^verbatim>\<open>AuthProvider\<close>.\<close>

record auth_state =
  session :: "session option"
  user :: "auth_user option"
  profile :: "profile_row option"
  isLoading :: bool
  isAdmin :: bool
  userRoles :: "jsval list"

subsection \<open>Role derivation\<close>

text \<open>
  \<^verbatim>\<open>const roles = data.roles || (data.role ? [data.role] : ["user"]);\<close>
  \<^verbatim>\<open>setIsAdmin(Array.isArray(roles) ? roles.includes("admin") : roles === "admin");\<close>
  \<^verbatim>\<open>setUserRoles(Array.isArray(roles) ? roles : (roles ? [roles] : ["user"]));\<close>
\<close>

definition derive_roles :: "profile_row \<Rightarrow> jsval" where
  "derive_roles d =
     (if truthy (p_roles d) then p_roles d
      else if truthy (p_role d) then JArr [p_role d]
      else JArr [JStr ''user''])"

definition roles_isAdmin :: "jsval \<Rightarrow> bool" where
  "roles_isAdmin roles =
     (case roles of JArr xs \<Rightarrow> JStr ''admin'' \<in> set xs | _ \<Rightarrow> roles = JStr ''admin'')"

definition roles_userRoles :: "jsval \<Rightarrow> jsval list" where
  "roles_userRoles roles =
     (case roles of JArr xs \<Rightarrow> xs
      | _ \<Rightarrow> if truthy roles then [roles] else [JStr ''user''])"

definition adopt_profile :: "profile_row \<Rightarrow> 'a auth_state_scheme \<Rightarrow> 'a auth_state_scheme" where
  "adopt_profile d s =
     s\<lparr>profile := Some d,
       isAdmin := roles_isAdmin (derive_roles d),
       userRoles := roles_userRoles (derive_roles d)\<rparr>"

definition default_profile :: "'a auth_state_scheme \<Rightarrow> 'a auth_state_scheme" where
  "default_profile s = s\<lparr>profile := None, isAdmin := False, userRoles := [JStr ''user'']\<rparr>"

subsection \<open>fetchUserProfile\<close>

text \<open>
  What the environment and the backend answer during one profile resolution: whether
  the two configuration values are present, the first read of the row, the live auth
  identity (\<^verbatim>\<open>userData.data?.user\<close>), the insert of the missing row (its
  \<^verbatim>\<open>error\<close> field) and the second read (its \<^verbatim>\<open>data\<close> field). Each awaited call
  may also reject.
\<close>

record fetch_replies =
  env_ok :: bool
  first_read :: "profile_row response awaited"
  get_user :: "auth_user option awaited"
  insert_row :: "js_error option awaited"
  second_read :: "profile_row option awaited"

text \<open>
  The body of the \<^verbatim>\<open>try\<close> block: \<open>Inl\<close> is an exception that reaches \<^verbatim>\<open>catch\<close>,
  \<open>Inr\<close> the state when the block is left normally or by its \<^verbatim>\<open>return\<close>. A response
  with neither data nor error makes \<^verbatim>\<open>data.roles\<close> raise a TypeError.
\<close>

definition try_block :: "fetch_replies \<Rightarrow> 'a auth_state_scheme \<Rightarrow> js_error + 'a auth_state_scheme" where
  "try_block b s =
     (if \<not> env_ok b then Inl (Error ''Variaveis de ambiente do Supabase nao configuradas'')
      else case first_read b of
        Thrown e \<Rightarrow> Inl e
      | Resolved r \<Rightarrow>
          (case error r of
             Some err \<Rightarrow>
               (if error_code err = Some ''PGRST116'' then
                  (case get_user b of
                     Thrown e \<Rightarrow> Inl e
                   | Resolved None \<Rightarrow> Inr (default_profile s)
                   | Resolved (Some u) \<Rightarrow>
                       (case insert_row b of
                          Thrown e \<Rightarrow> Inl e
                        | Resolved (Some insertError) \<Rightarrow> Inr (default_profile s)
                        | Resolved None \<Rightarrow>
                            (case second_read b of
                               Thrown e \<Rightarrow> Inl e
                             | Resolved None \<Rightarrow> Inr (default_profile s)
                             | Resolved (Some newData) \<Rightarrow>
                                 Inr ((adopt_profile newData s)\<lparr>isLoading := False\<rparr>))))
                else Inr (default_profile s))
           | None \<Rightarrow>
               (case data r of
                  None \<Rightarrow> Inl TypeError
                | Some d \<Rightarrow> Inr (adopt_profile d s))))"

text \<open>\<^verbatim>\<open>catch\<close> installs the default profile, \<^verbatim>\<open>finally\<close> clears the loading flag.\<close>

definition fetch_settle :: "fetch_replies \<Rightarrow> 'a auth_state_scheme \<Rightarrow> 'a auth_state_scheme" where
  "fetch_settle b s =
     (case try_block b s of
        Inl e \<Rightarrow> default_profile s
      | Inr s' \<Rightarrow> s')\<lparr>isLoading := False\<rparr>"

definition fetchUserProfile ::
  "fetch_replies \<Rightarrow> string \<Rightarrow> 'a auth_state_scheme \<Rightarrow> 'a auth_state_scheme" where
  "fetchUserProfile b userId s = fetch_settle b (s\<lparr>isLoading := True\<rparr>)"

subsection \<open>hasRole\<close>

definition hasRole :: "'a auth_state_scheme \<Rightarrow> string \<Rightarrow> bool" where
  "hasRole s role = (if isAdmin s then True else JStr role \<in> set (userRoles s))"

subsection \<open>The provider as a transition system\<close>

text \<open>
  The effect closes over the flag \<^verbatim>\<open>initialLoad\<close>. \<open>fetchCalls\<close> records every call of
  \<^verbatim>\<open>fetchUserProfile\<close> with its user id, in order. Each event below is one
  synchronous block of the source, whose state updates take effect together (React
  batches them into one render), so that resolutions may interleave freely:
  the \<^verbatim>\<open>then\<close> of \<^verbatim>\<open>getSession\<close>, the auth-state-change handler up to its
  \<^verbatim>\<open>await\<close>, the rest of a profile fetch once its backend calls have settled, the
  visibility listener, and \<^verbatim>\<open>signOut\<close> after its \<^verbatim>\<open>await\<close>.
\<close>

record provider = auth_state +
  initialLoad :: bool
  fetchCalls :: "string list"

text \<open>The initial values of the cells, and the flag as the effect sets it.\<close>

definition startup :: provider where
  "startup =
     \<lparr>session = None, user = None, profile = None,
      isLoading = True, isAdmin = False, userRoles = [],
      initialLoad = True, fetchCalls = []\<rparr>"

definition session_user :: "session option \<Rightarrow> auth_user option" where
  "session_user ss = (case ss of None \<Rightarrow> None | Some x \<Rightarrow> s_user x)"

definition call_fetchUserProfile :: "string \<Rightarrow> provider \<Rightarrow> provider" where
  "call_fetchUserProfile userId s = s\<lparr>fetchCalls := fetchCalls s @ [userId], isLoading := True\<rparr>"

definition getSession_then :: "session option \<Rightarrow> provider \<Rightarrow> provider" where
  "getSession_then ss s =
     (let s1 = s\<lparr>session := ss, user := session_user ss\<rparr>
      in case session_user ss of
           Some u \<Rightarrow> call_fetchUserProfile (u_id u) s1
         | None \<Rightarrow> s1\<lparr>isLoading := False\<rparr>)"

definition onAuthStateChange :: "session option \<Rightarrow> provider \<Rightarrow> provider" where
  "onAuthStateChange ss s =
     (if initialLoad s then s\<lparr>initialLoad := False\<rparr>
      else
        let s1 = s\<lparr>session := ss, user := session_user ss\<rparr>
        in case session_user ss of
             Some u \<Rightarrow> call_fetchUserProfile (u_id u) s1
           | None \<Rightarrow> s1\<lparr>profile := None, isAdmin := False, userRoles := [], isLoading := False\<rparr>)"

definition handleVisibility :: "bool \<Rightarrow> provider \<Rightarrow> provider" where
  "handleVisibility visible s = (if visible then s\<lparr>isLoading := False\<rparr> else s)"

definition signOut :: "provider \<Rightarrow> provider" where
  "signOut s =
     s\<lparr>session := None, user := None, profile := None,
       isAdmin := False, userRoles := [], isLoading := False\<rparr>"

datatype event =
    GetSessionResolved "session option"
  | AuthStateChange "session option"
  | ProfileFetchSettled fetch_replies
  | VisibilityChange bool
  | SignOutResolved

fun step :: "event \<Rightarrow> provider \<Rightarrow> provider" where
  "step (GetSessionResolved ss) s = getSession_then ss s"
| "step (AuthStateChange ss) s = onAuthStateChange ss s"
| "step (ProfileFetchSettled b) s = fetch_settle b s"
| "step (VisibilityChange v) s = handleVisibility v s"
| "step SignOutResolved s = signOut s"

definition run :: "event list \<Rightarrow> provider \<Rightarrow> provider" where
  "run evs s = foldl (\<lambda>s e. step e s) s evs"

fun is_auth_change :: "event \<Rightarrow> bool" where
  "is_auth_change (AuthStateChange ss) = True"
| "is_auth_change _ = False"

section \<open>Expense data-access module\<close>

subsection \<open>Records\<close>

text \<open>
  Timestamps are instants in milliseconds since the epoch: the ISO text that
  \<^verbatim>\<open>toISOString\<close> produces denotes the instant of the \<^verbatim>\<open>Date\<close> exactly, and the
  backend compares instants. A \<^verbatim>\<open>Date\<close> can be invalid, and then
  \<^verbatim>\<open>toISOString\<close> throws a RangeError. A \<open>char\<close> is a code unit below 256.
  The amount is never inspected by this layer.
\<close>

type_synonym time = int

datatype js_date = Date time | InvalidDate

datatype expense_status = Pending | Approved | Rejected

datatype payment_status = PaymentPending | Paid

record expense =
  e_id :: "string option"
  e_user_id :: string
  e_name :: string
  e_description :: string
  e_amount :: int
  e_purpose :: string
  e_cost_center_id :: string
  e_category_id :: string
  e_payment_date :: string
  e_status :: expense_status
  e_payment_status :: "payment_status option"
  e_paid_at :: "time option"
  e_rejection_reason :: "string option"
  e_submitted_date :: "time option"
  e_updated_at :: "time option"

record receipt =
  r_id :: "string option"
  r_expense_id :: "string option"
  r_file_name :: string
  r_file_type :: string
  r_file_size :: nat
  r_storage_path :: string
  r_created_at :: "time option"

record js_file =
  f_name :: string
  f_type :: string
  f_size :: nat

text \<open>
  Modelled from the spec: the row type of \<^verbatim>\<open>categories\<close> and of
  \<^verbatim>\<open>cost_centers\<close>, declared in the absent \<^verbatim>\<open>types/supabase\<close>; the spec gives both
  as (id, name) reference entities, and the source orders them by \<^verbatim>\<open>name\<close>.
\<close>

record named_row =
  n_id :: string
  n_name :: string

subsection \<open>The backend\<close>

text \<open>
  The relations and the bucket this module touches, and the requests issued so far, in
  order. The backend itself is outside the repository: the definitions of this
  subsection give the meaning of the requests the module sends (a filter keeps the
  rows that satisfy it, a comparison with a NULL column fails, a delete removes the
  matching rows, an update overwrites exactly the columns it names), and a \<open>fault\<close>
  says how a request goes: it succeeds, it is answered with an error and has no
  effect, or the call rejects and has no effect.
\<close>

datatype fault = NoFault | ErrorReply js_error | Throws js_error

record patch =
  set_status :: "expense_status option"
  set_rejection_reason :: "string option"
  set_payment_status :: "payment_status option"
  set_paid_at :: "time option option"
  set_updated_at :: "time option"

datatype request =
    InsertExpense expense
  | Upload string
  | InsertReceipts "receipt list"
  | UpdateExpense string patch
  | DeleteReceipts string
  | DeleteExpense string

record db =
  expenses :: "expense list"
  receipts :: "receipt list"
  categories :: "named_row list"
  cost_centers :: "named_row list"
  storage :: "(string \<times> js_file) list"
  requests :: "request list"

definition answer :: "fault \<Rightarrow> 'a \<Rightarrow> 'a response awaited" where
  "answer f d =
     (case f of
        NoFault \<Rightarrow> Resolved \<lparr>data = Some d, error = None\<rparr>
      | ErrorReply e \<Rightarrow> Resolved \<lparr>data = None, error = Some e\<rparr>
      | Throws e \<Rightarrow> Thrown e)"

definition issue :: "request \<Rightarrow> db \<Rightarrow> db" where
  "issue r d = d\<lparr>requests := requests d @ [r]\<rparr>"

definition effect :: "fault \<Rightarrow> (db \<Rightarrow> db) \<Rightarrow> db \<Rightarrow> db" where
  "effect f g d = (if f = NoFault then g d else d)"

text \<open>Queries on \<^verbatim>\<open>expenses\<close>, as the query builder accumulates them.\<close>

datatype qval = QStr string | QTime time

datatype clause =
    Or_filter string
  | Eq_filter string qval
  | Gte_filter string qval
  | Lte_filter string qval

record query =
  clauses :: "clause list"
  order_by :: "(string \<times> bool) option"

fun status_text :: "expense_status \<Rightarrow> string" where
  "status_text Pending = ''pending''"
| "status_text Approved = ''approved''"
| "status_text Rejected = ''rejected''"

text \<open>The columns the module filters on; \<open>None\<close> is NULL.\<close>

definition column :: "expense \<Rightarrow> string \<Rightarrow> qval option" where
  "column e c =
     (if c = ''status'' then Some (QStr (status_text (e_status e)))
      else if c = ''category_id'' then Some (QStr (e_category_id e))
      else if c = ''cost_center_id'' then Some (QStr (e_cost_center_id e))
      else if c = ''submitted_date'' then map_option QTime (e_submitted_date e)
      else None)"

fun qle :: "qval \<Rightarrow> qval \<Rightarrow> bool" where
  "qle (QTime a) (QTime b) = (a \<le> b)"
| "qle (QStr a) (QStr b) = (a \<le> b)"
| "qle _ _ = False"

text \<open>
  The text handed to \<^verbatim>\<open>or\<close> is parsed by the backend; its meaning is the parameter
  \<open>osem\<close>.
\<close>

fun holds :: "(string \<Rightarrow> expense \<Rightarrow> bool) \<Rightarrow> expense \<Rightarrow> clause \<Rightarrow> bool" where
  "holds osem e (Or_filter t) = osem t e"
| "holds osem e (Eq_filter c v) = (column e c = Some v)"
| "holds osem e (Gte_filter c v) = (case column e c of None \<Rightarrow> False | Some w \<Rightarrow> qle v w)"
| "holds osem e (Lte_filter c v) = (case column e c of None \<Rightarrow> False | Some w \<Rightarrow> qle w v)"

definition has_date :: "expense \<Rightarrow> bool" where
  "has_date e = (e_submitted_date e \<noteq> None)"

definition date_of :: "expense \<Rightarrow> time" where
  "date_of e = (case e_submitted_date e of Some t \<Rightarrow> t | None \<Rightarrow> 0)"

text \<open>Ordering by \<^verbatim>\<open>submitted_date\<close>: NULLs last when ascending, first when descending.\<close>

definition order_rows :: "(string \<times> bool) option \<Rightarrow> expense list \<Rightarrow> expense list" where
  "order_rows ob rows =
     (case ob of
        None \<Rightarrow> rows
      | Some (c, ascending) \<Rightarrow>
          if c = ''submitted_date'' then
            (if ascending
             then sort_key date_of (filter has_date rows) @ filter (\<lambda>e. \<not> has_date e) rows
             else filter (\<lambda>e. \<not> has_date e) rows @ sort_key (\<lambda>e. - date_of e) (filter has_date rows))
          else rows)"

text \<open>
  The select list also embeds the owner, the cost centre, the category and the receipts
  of each expense; they add columns to a row and never remove a row, and are left out.
\<close>

definition select_expenses ::
  "(string \<Rightarrow> expense \<Rightarrow> bool) \<Rightarrow> fault \<Rightarrow> db \<Rightarrow> query \<Rightarrow> expense list response awaited" where
  "select_expenses osem f d q =
     answer f (order_rows (order_by q)
                 (filter (\<lambda>e. list_all (holds osem e) (clauses q)) (expenses d)))"

text \<open>
  A read of one of the reference relations, as the query builder accumulates it:
  \<^verbatim>\<open>from(table).select(columns).order(column)\<close>.
\<close>

record table_query =
  from_table :: string
  select_columns :: string
  order_column :: "string option"

text \<open>
  The backend's answer to such a read. The relation is looked up by its name and
  ordered, ascending, by the column the request names; names and ids are compared code
  unit by code unit. A relation or an ordering column the backend does not have is
  answered with an error. The module only ever selects \<^verbatim>\<open>*\<close>, and rows are returned
  whole.
\<close>

definition named_table :: "db \<Rightarrow> string \<Rightarrow> named_row list option" where
  "named_table d t =
     (if t = ''categories'' then Some (categories d)
      else if t = ''cost_centers'' then Some (cost_centers d)
      else None)"

definition order_named :: "string option \<Rightarrow> named_row list \<Rightarrow> named_row list option" where
  "order_named c rows =
     (case c of
        None \<Rightarrow> Some rows
      | Some k \<Rightarrow>
          if k = ''name'' then Some (sort_key n_name rows)
          else if k = ''id'' then Some (sort_key n_id rows)
          else None)"

definition select_named :: "fault \<Rightarrow> db \<Rightarrow> table_query \<Rightarrow> named_row list response awaited" where
  "select_named f d q =
     (case f of
        Throws e \<Rightarrow> Thrown e
      | ErrorReply e \<Rightarrow> Resolved \<lparr>data = None, error = Some e\<rparr>
      | NoFault \<Rightarrow>
          (case named_table d (from_table q) of
             None \<Rightarrow> Resolved \<lparr>data = None, error = Some (PostgrestError ''42P01'' ''undefined table'')\<rparr>
           | Some rows \<Rightarrow>
               (case order_named (order_column q) rows of
                  None \<Rightarrow>
                    Resolved \<lparr>data = None, error = Some (PostgrestError ''42703'' ''undefined column'')\<rparr>
                | Some ordered \<Rightarrow> Resolved \<lparr>data = Some ordered, error = None\<rparr>)))"

definition error_of :: "fault \<Rightarrow> js_error option awaited" where
  "error_of f =
     (case f of
        NoFault \<Rightarrow> Resolved None
      | ErrorReply e \<Rightarrow> Resolved (Some e)
      | Throws e \<Rightarrow> Thrown e)"

definition stored_row :: "string \<Rightarrow> expense \<Rightarrow> expense" where
  "stored_row fresh e = (case e_id e of None \<Rightarrow> e\<lparr>e_id := Some fresh\<rparr> | Some i \<Rightarrow> e)"

text \<open>\<^verbatim>\<open>insert([expense]).select().single()\<close>; the identifier is assigned by the server.\<close>

definition insert_expense :: "fault \<Rightarrow> string \<Rightarrow> expense \<Rightarrow> db \<Rightarrow> expense response awaited \<times> db" where
  "insert_expense f fresh e d =
     (answer f (stored_row fresh e),
      effect f (\<lambda>d. d\<lparr>expenses := expenses d @ [stored_row fresh e]\<rparr>) (issue (InsertExpense e) d))"

definition insert_receipts :: "fault \<Rightarrow> receipt list \<Rightarrow> db \<Rightarrow> js_error option awaited \<times> db" where
  "insert_receipts f rs d =
     (error_of f,
      effect f (\<lambda>d. d\<lparr>receipts := receipts d @ rs\<rparr>) (issue (InsertReceipts rs) d))"

definition upload :: "js_error option \<Rightarrow> string \<Rightarrow> js_file \<Rightarrow> db \<Rightarrow> db" where
  "upload err path fl d =
     (case err of
        None \<Rightarrow> (issue (Upload path) d)\<lparr>storage := storage d @ [(path, fl)]\<rparr>
      | Some e \<Rightarrow> issue (Upload path) d)"

definition apply_patch :: "patch \<Rightarrow> expense \<Rightarrow> expense" where
  "apply_patch p e =
     e\<lparr>e_status := (case set_status p of None \<Rightarrow> e_status e | Some v \<Rightarrow> v),
       e_rejection_reason :=
         (case set_rejection_reason p of None \<Rightarrow> e_rejection_reason e | Some v \<Rightarrow> Some v),
       e_payment_status :=
         (case set_payment_status p of None \<Rightarrow> e_payment_status e | Some v \<Rightarrow> Some v),
       e_paid_at := (case set_paid_at p of None \<Rightarrow> e_paid_at e | Some v \<Rightarrow> v),
       e_updated_at := (case set_updated_at p of None \<Rightarrow> e_updated_at e | Some v \<Rightarrow> Some v)\<rparr>"

definition update_row :: "patch \<Rightarrow> string \<Rightarrow> expense \<Rightarrow> expense" where
  "update_row p i e = (if e_id e = Some i then apply_patch p e else e)"

text \<open>\<^verbatim>\<open>update(updateData).eq("id", id).select()\<close> answers with the updated rows.\<close>

definition update_expense :: "fault \<Rightarrow> patch \<Rightarrow> string \<Rightarrow> db \<Rightarrow> expense list response awaited \<times> db" where
  "update_expense f p i d =
     (answer f (map (apply_patch p) (filter (\<lambda>e. e_id e = Some i) (expenses d))),
      effect f (\<lambda>d. d\<lparr>expenses := map (update_row p i) (expenses d)\<rparr>) (issue (UpdateExpense i p) d))"

definition delete_receipts :: "fault \<Rightarrow> string \<Rightarrow> db \<Rightarrow> js_error option awaited \<times> db" where
  "delete_receipts f i d =
     (error_of f,
      effect f (\<lambda>d. d\<lparr>receipts := filter (\<lambda>r. r_expense_id r \<noteq> Some i) (receipts d)\<rparr>)
        (issue (DeleteReceipts i) d))"

definition delete_expense :: "fault \<Rightarrow> string \<Rightarrow> db \<Rightarrow> js_error option awaited \<times> db" where
  "delete_expense f i d =
     (error_of f,
      effect f (\<lambda>d. d\<lparr>expenses := filter (\<lambda>e. e_id e \<noteq> Some i) (expenses d)\<rparr>)
        (issue (DeleteExpense i) d))"

subsection \<open>fetchExpenses\<close>

record date_range =
  dr_from :: "js_date option"
  dr_to :: "js_date option"

record filters =
  search :: "string option"
  status :: "string option"
  category :: "string option"
  costCenter :: "string option"
  dateRange :: "date_range option"

definition is_space :: "char \<Rightarrow> bool" where
  "is_space c = (c \<in> set [CHR 0x09, CHR 0x0A, CHR 0x0B, CHR 0x0C, CHR 0x0D, CHR 0x20, CHR 0xA0])"

definition trim :: "string \<Rightarrow> string" where
  "trim s = rev (dropWhile is_space (rev (dropWhile is_space s)))"

definition add_clause :: "clause \<Rightarrow> query \<Rightarrow> query" where
  "add_clause c q = q\<lparr>clauses := clauses q @ [c]\<rparr>"

definition search_text :: "string \<Rightarrow> string" where
  "search_text t = ''name.ilike.%'' @ t @ ''%,description.ilike.%'' @ t @ ''%''"

definition search_filter :: "string option \<Rightarrow> query \<Rightarrow> query" where
  "search_filter v q =
     (case v of
        None \<Rightarrow> q
      | Some s \<Rightarrow> if s \<noteq> [] \<and> trim s \<noteq> [] then add_clause (Or_filter (search_text (trim s))) q else q)"

definition eq_filter :: "string \<Rightarrow> string option \<Rightarrow> query \<Rightarrow> query" where
  "eq_filter c v q =
     (case v of
        None \<Rightarrow> q
      | Some s \<Rightarrow> if s \<noteq> [] \<and> s \<noteq> [] then add_clause (Eq_filter c (QStr s)) q else q)"

definition range_from :: "date_range option \<Rightarrow> js_date option" where
  "range_from r = (case r of None \<Rightarrow> None | Some x \<Rightarrow> dr_from x)"

definition range_to :: "date_range option \<Rightarrow> js_date option" where
  "range_to r = (case r of None \<Rightarrow> None | Some x \<Rightarrow> dr_to x)"

definition date_filter ::
  "(string \<Rightarrow> qval \<Rightarrow> clause) \<Rightarrow> js_date option \<Rightarrow> query \<Rightarrow> js_error + query" where
  "date_filter mk v q =
     (case v of
        None \<Rightarrow> Inr q
      | Some InvalidDate \<Rightarrow> Inl RangeError
      | Some (Date t) \<Rightarrow> Inr (add_clause (mk ''submitted_date'' (QTime t)) q))"

definition build_query :: "filters \<Rightarrow> js_error + query" where
  "build_query f =
     (let q0 = \<lparr>clauses = [], order_by = None\<rparr>;
          q1 = search_filter (search f) q0;
          q2 = eq_filter ''status'' (status f) q1;
          q3 = eq_filter ''category_id'' (category f) q2;
          q4 = eq_filter ''cost_center_id'' (costCenter f) q3
      in case date_filter Gte_filter (range_from (dateRange f)) q4 of
           Inl e \<Rightarrow> Inl e
         | Inr q5 \<Rightarrow>
             (case date_filter Lte_filter (range_to (dateRange f)) q5 of
                Inl e \<Rightarrow> Inl e
              | Inr q6 \<Rightarrow> Inr (q6\<lparr>order_by := Some (''submitted_date'', False)\<rparr>)))"

text \<open>
  \<open>backend\<close> is what awaiting the built query gives. Both the inner \<^verbatim>\<open>throw error\<close>
  and the \<^verbatim>\<open>catch\<close>, which throws again, end in \<open>Inl\<close>.
\<close>

definition fetchExpenses ::
  "(query \<Rightarrow> expense list response awaited) \<Rightarrow> filters \<Rightarrow> js_error + expense list" where
  "fetchExpenses backend f =
     (case build_query f of
        Inl e \<Rightarrow> Inl e
      | Inr q \<Rightarrow>
          (case backend q of
             Thrown e \<Rightarrow> Inl e
           | Resolved r \<Rightarrow>
               (case error r of
                  Some e \<Rightarrow> Inl e
                | None \<Rightarrow> Inr (case data r of None \<Rightarrow> [] | Some rows \<Rightarrow> rows))))"

subsection \<open>createExpense\<close>

text \<open>
  What happens during one call: how the insert of the expense goes and which id the
  server assigns, what \<^verbatim>\<open>Date.now()\<close> gives in the callback of file \<open>i\<close>, whether
  the upload of file \<open>i\<close> fails, in which order the uploads settle (uploads the list
  does not mention settle afterwards, by index), and how the insert of the receipts
  goes. \<^verbatim>\<open>Promise.all\<close> rejects with the first rejection to settle.
\<close>

record create_replies =
  insert_fault :: fault
  fresh_id :: string
  clock :: "nat \<Rightarrow> nat"
  upload_error :: "nat \<Rightarrow> js_error option"
  settle_order :: "nat list"
  receipts_fault :: fault

fun show_nat :: "nat \<Rightarrow> string" where
  "show_nat n =
     (if n < 10 then [char_of (48 + n)]
      else show_nat (n div 10) @ [char_of (48 + n mod 10)])"

definition file_ext :: "string \<Rightarrow> string" where
  "file_ext n = rev (takeWhile (\<lambda>c. c \<noteq> CHR ''.'') (rev n))"

definition id_text :: "string option \<Rightarrow> string" where
  "id_text i = (case i of None \<Rightarrow> ''undefined'' | Some x \<Rightarrow> x)"

definition file_path :: "expense \<Rightarrow> nat \<Rightarrow> nat \<Rightarrow> js_file \<Rightarrow> string" where
  "file_path ed now i fl =
     id_text (e_id ed) @ ''/'' @ show_nat now @ ''_'' @ show_nat i @ ''.'' @ file_ext (f_name fl)"

definition receipt_for :: "expense \<Rightarrow> string \<Rightarrow> js_file \<Rightarrow> receipt" where
  "receipt_for ed path fl =
     \<lparr>r_id = None, r_expense_id = e_id ed, r_file_name = f_name fl, r_file_type = f_type fl,
      r_file_size = f_size fl, r_storage_path = path, r_created_at = None\<rparr>"

fun upload_all :: "create_replies \<Rightarrow> expense \<Rightarrow> nat \<Rightarrow> js_file list \<Rightarrow> db \<Rightarrow> db" where
  "upload_all b ed i [] d = d"
| "upload_all b ed i (fl # fls) d =
     upload_all b ed (Suc i) fls (upload (upload_error b i) (file_path ed (clock b i) i fl) fl d)"

definition receipts_of :: "create_replies \<Rightarrow> expense \<Rightarrow> js_file list \<Rightarrow> receipt list" where
  "receipts_of b ed files =
     map (\<lambda>(i, fl). receipt_for ed (file_path ed (clock b i) i fl) fl) (enumerate 0 files)"

definition first_rejection :: "(nat \<Rightarrow> js_error option) \<Rightarrow> nat \<Rightarrow> nat list \<Rightarrow> js_error option" where
  "first_rejection up n order =
     (case filter (\<lambda>i. i < n \<and> up i \<noteq> None) (order @ [0..<n]) of
        [] \<Rightarrow> None
      | i # rest \<Rightarrow> up i)"

definition createExpense ::
  "create_replies \<Rightarrow> expense \<Rightarrow> js_file list \<Rightarrow> db \<Rightarrow> (js_error + expense option) \<times> db" where
  "createExpense b expense files d =
     (case insert_expense (insert_fault b) (fresh_id b) expense d of
        (Thrown e, d1) \<Rightarrow> (Inl e, d1)
      | (Resolved r, d1) \<Rightarrow>
          (case error r of
             Some expenseError \<Rightarrow> (Inl expenseError, d1)
           | None \<Rightarrow>
               (case data r of
                  None \<Rightarrow> (Inr None, d1)
                | Some expenseData \<Rightarrow>
                    if length files > 0 then
                      (let d2 = upload_all b expenseData 0 files d1
                       in case first_rejection (upload_error b) (length files) (settle_order b) of
                            Some uploadError \<Rightarrow> (Inl uploadError, d2)
                          | None \<Rightarrow>
                              (case insert_receipts (receipts_fault b)
                                      (receipts_of b expenseData files) d2 of
                                 (Thrown e, d3) \<Rightarrow> (Inl e, d3)
                               | (Resolved (Some receiptsError), d3) \<Rightarrow> (Inl receiptsError, d3)
                               | (Resolved None, d3) \<Rightarrow> (Inr (Some expenseData), d3)))
                    else (Inr (Some expenseData), d1))))"

subsection \<open>updateExpenseStatus and updatePaymentStatus\<close>

text \<open>
  The annotation of \<^verbatim>\<open>status\<close> admits \<^verbatim>\<open>"approved"\<close> and \<^verbatim>\<open>"rejected"\<close>; the
  function is defined here for every status. \<open>now\<close> is what \<^verbatim>\<open>new Date()\<close> gives.
\<close>

definition status_update_data :: "time \<Rightarrow> expense_status \<Rightarrow> string option \<Rightarrow> patch" where
  "status_update_data now st rejectionReason =
     (let updateData =
            \<lparr>set_status = Some st, set_rejection_reason = None, set_payment_status = None,
             set_paid_at = None, set_updated_at = Some now\<rparr>
      in if st = Rejected \<and> rejectionReason \<noteq> None \<and> rejectionReason \<noteq> Some []
         then updateData\<lparr>set_rejection_reason := rejectionReason\<rparr>
         else updateData)"

definition updateExpenseStatus ::
  "fault \<Rightarrow> time \<Rightarrow> string \<Rightarrow> expense_status \<Rightarrow> string option \<Rightarrow> db
     \<Rightarrow> (js_error + expense list option) \<times> db" where
  "updateExpenseStatus f now i st rejectionReason d =
     (case update_expense f (status_update_data now st rejectionReason) i d of
        (Thrown e, d1) \<Rightarrow> (Inl e, d1)
      | (Resolved r, d1) \<Rightarrow>
          (case error r of
             Some e \<Rightarrow> (Inl e, d1)
           | None \<Rightarrow> (Inr (data r), d1)))"

definition payment_update_data :: "time \<Rightarrow> time \<Rightarrow> bool \<Rightarrow> patch" where
  "payment_update_data now1 now2 isPaid =
     \<lparr>set_status = None, set_rejection_reason = None,
      set_payment_status = Some (if isPaid then Paid else PaymentPending),
      set_paid_at = Some (if isPaid then Some now1 else None),
      set_updated_at = Some now2\<rparr>"

definition updatePaymentStatus ::
  "fault \<Rightarrow> time \<Rightarrow> time \<Rightarrow> string \<Rightarrow> bool \<Rightarrow> db \<Rightarrow> (js_error + expense list option) \<times> db" where
  "updatePaymentStatus f now1 now2 i isPaid d =
     (case update_expense f (payment_update_data now1 now2 isPaid) i d of
        (Thrown e, d1) \<Rightarrow> (Inl e, d1)
      | (Resolved r, d1) \<Rightarrow>
          (case error r of
             Some e \<Rightarrow> (Inl e, d1)
           | None \<Rightarrow> (Inr (data r), d1)))"

subsection \<open>fetchCategories and fetchCostCenters\<close>

text \<open>
  Each function builds its read and awaits it: \<open>backend\<close> is what awaiting a read
  gives. The \<^verbatim>\<open>throw error\<close> inside lands in the \<^verbatim>\<open>catch\<close>, which returns the
  empty list, so neither function has an error result.
\<close>

definition categories_query :: table_query where
  "categories_query =
     \<lparr>from_table = ''categories'', select_columns = ''*'', order_column = Some ''name''\<rparr>"

definition fetchCategories :: "(table_query \<Rightarrow> named_row list response awaited) \<Rightarrow> named_row list" where
  "fetchCategories backend =
     (case backend categories_query of
        Thrown e \<Rightarrow> []
      | Resolved r \<Rightarrow>
          (case error r of
             Some e \<Rightarrow> []
           | None \<Rightarrow> (case data r of None \<Rightarrow> [] | Some rows \<Rightarrow> rows)))"

definition cost_centers_query :: table_query where
  "cost_centers_query =
     \<lparr>from_table = ''cost_centers'', select_columns = ''*'', order_column = Some ''name''\<rparr>"

definition fetchCostCenters :: "(table_query \<Rightarrow> named_row list response awaited) \<Rightarrow> named_row list" where
  "fetchCostCenters backend =
     (case backend cost_centers_query of
        Thrown e \<Rightarrow> []
      | Resolved r \<Rightarrow>
          (case error r of
             Some e \<Rightarrow> []
           | None \<Rightarrow> (case data r of None \<Rightarrow> [] | Some rows \<Rightarrow> rows)))"

subsection \<open>deleteExpense\<close>

definition deleteExpense :: "fault \<Rightarrow> fault \<Rightarrow> string \<Rightarrow> db \<Rightarrow> (js_error + bool) \<times> db" where
  "deleteExpense f1 f2 i d =
     (case delete_receipts f1 i d of
        (Thrown e, d1) \<Rightarrow> (Inl e, d1)
      | (Resolved (Some receiptsError), d1) \<Rightarrow> (Inl receiptsError, d1)
      | (Resolved None, d1) \<Rightarrow>
          (case delete_expense f2 i d1 of
             (Thrown e, d2) \<Rightarrow> (Inl e, d2)
           | (Resolved (Some err), d2) \<Rightarrow> (Inl err, d2)
           | (Resolved None, d2) \<Rightarrow> (Inr True, d2)))"

section \<open>Properties to be verified\<close>

text \<open>The admin flag agrees with the role collection held beside it.\<close>

definition admin_consistent :: "'a auth_state_scheme \<Rightarrow> bool" where
  "admin_consistent s = (isAdmin s = (JStr ''admin'' \<in> set (userRoles s)))"

text \<open>A read has failed when the call rejected or answered with an error.\<close>

definition failed :: "'a response awaited \<Rightarrow> bool" where
  "failed reply = (case reply of Thrown e \<Rightarrow> True | Resolved r \<Rightarrow> error r \<noteq> None)"

definition fault_error :: "fault \<Rightarrow> js_error option" where
  "fault_error f = (case f of NoFault \<Rightarrow> None | ErrorReply e \<Rightarrow> Some e | Throws e \<Rightarrow> Some e)"

text \<open>The invariant of the data model: a rejection reason only on a rejected expense.\<close>

definition reason_invariant :: "expense \<Rightarrow> bool" where
  "reason_invariant e = (e_rejection_reason e = None \<or> e_status e = Rejected)"

text \<open>
  The filter object with every blank field left out: an empty status, category or cost
  centre, and a search text that is empty or consists of whitespace.
\<close>

definition omit_blank :: "filters \<Rightarrow> filters" where
  "omit_blank f =
     f\<lparr>search := (case search f of
                    None \<Rightarrow> None
                  | Some s \<Rightarrow> if list_all is_space s then None else Some s),
       status := (if status f = Some [] then None else status f),
       category := (if category f = Some [] then None else category f),
       costCenter := (if costCenter f = Some [] then None else costCenter f)\<rparr>"

text \<open>
  The rows a listing with the date range \<open>[a, b]\<close> is to return: submitted within the
  range, bounds included, and passing each of the other filters that is active.
\<close>

definition active :: "string option \<Rightarrow> string option" where
  "active v = (case v of None \<Rightarrow> None | Some s \<Rightarrow> if s = [] then None else Some s)"

definition wanted :: "(string \<Rightarrow> expense \<Rightarrow> bool) \<Rightarrow> filters \<Rightarrow> time \<Rightarrow> time \<Rightarrow> expense \<Rightarrow> bool" where
  "wanted osem f a b e =
     ((case e_submitted_date e of None \<Rightarrow> False | Some t \<Rightarrow> a \<le> t \<and> t \<le> b)
      \<and> (case active (map_option trim (search f)) of
            None \<Rightarrow> True | Some t \<Rightarrow> osem (search_text t) e)
      \<and> (case active (status f) of
            None \<Rightarrow> True | Some s \<Rightarrow> status_text (e_status e) = s)
      \<and> (case active (category f) of
            None \<Rightarrow> True | Some c \<Rightarrow> e_category_id e = c)
      \<and> (case active (costCenter f) of
            None \<Rightarrow> True | Some c \<Rightarrow> e_cost_center_id e = c))"

text \<open>The clauses the text filters of a filter object contribute, in the order they are added.\<close>

definition text_clauses :: "filters \<Rightarrow> clause list" where
  "text_clauses f =
     (case active (map_option trim (search f)) of
        None \<Rightarrow> [] | Some t \<Rightarrow> [Or_filter (search_text t)])
     @ (case active (status f) of None \<Rightarrow> [] | Some s \<Rightarrow> [Eq_filter ''status'' (QStr s)])
     @ (case active (category f) of None \<Rightarrow> [] | Some s \<Rightarrow> [Eq_filter ''category_id'' (QStr s)])
     @ (case active (costCenter f) of None \<Rightarrow> [] | Some s \<Rightarrow> [Eq_filter ''cost_center_id'' (QStr s)])"

subsection \<open>Sample data\<close>

definition taxi :: expense where
  "taxi =
     \<lparr>e_id = Some ''e1'', e_user_id = ''u1'', e_name = ''Taxi'', e_description = ''Airport'',
      e_amount = 40, e_purpose = ''Travel'', e_cost_center_id = ''cc1'', e_category_id = ''c1'',
      e_payment_date = ''2024-05-02'', e_status = Rejected, e_payment_status = None,
      e_paid_at = None, e_rejection_reason = Some ''duplicate'',
      e_submitted_date = Some 1000, e_updated_at = None\<rparr>"

definition lunch :: expense where
  "lunch =
     \<lparr>e_id = Some ''e2'', e_user_id = ''u1'', e_name = ''Lunch'', e_description = ''Client'',
      e_amount = 25, e_purpose = ''Meeting'', e_cost_center_id = ''cc1'', e_category_id = ''c2'',
      e_payment_date = ''2024-05-03'', e_status = Pending, e_payment_status = None,
      e_paid_at = None, e_rejection_reason = None,
      e_submitted_date = Some 2000, e_updated_at = None\<rparr>"

definition hotel :: expense where
  "hotel =
     \<lparr>e_id = None, e_user_id = ''u2'', e_name = ''Hotel'', e_description = ''Fair'',
      e_amount = 300, e_purpose = ''Travel'', e_cost_center_id = ''cc2'', e_category_id = ''c1'',
      e_payment_date = ''2024-05-09'', e_status = Pending, e_payment_status = None,
      e_paid_at = None, e_rejection_reason = None,
      e_submitted_date = Some 3000, e_updated_at = None\<rparr>"

definition taxi_receipt :: receipt where
  "taxi_receipt =
     \<lparr>r_id = Some ''r1'', r_expense_id = Some ''e1'', r_file_name = ''taxi.pdf'',
      r_file_type = ''application/pdf'', r_file_size = 1200,
      r_storage_path = ''e1/17_0.pdf'', r_created_at = Some 1001\<rparr>"

definition lunch_receipt :: receipt where
  "lunch_receipt =
     \<lparr>r_id = Some ''r2'', r_expense_id = Some ''e2'', r_file_name = ''lunch.png'',
      r_file_type = ''image/png'', r_file_size = 900,
      r_storage_path = ''e2/18_0.png'', r_created_at = Some 2001\<rparr>"

definition office :: db where
  "office =
     \<lparr>expenses = [taxi, lunch], receipts = [taxi_receipt, lunch_receipt],
      categories = [\<lparr>n_id = ''c1'', n_name = ''Travel''\<rparr>, \<lparr>n_id = ''c2'', n_name = ''Meals''\<rparr>],
      cost_centers = [\<lparr>n_id = ''cc2'', n_name = ''Sales''\<rparr>, \<lparr>n_id = ''cc1'', n_name = ''Research''\<rparr>],
      storage = [], requests = []\<rparr>"

definition no_filters :: filters where
  "no_filters = \<lparr>search = None, status = None, category = None, costCenter = None, dateRange = None\<rparr>"

definition blank_filters :: filters where
  "blank_filters =
     \<lparr>search = Some ''  '', status = Some [], category = Some [], costCenter = Some [],
      dateRange = None\<rparr>"

definition may_filters :: filters where
  "may_filters =
     \<lparr>search = Some '' '', status = None, category = None, costCenter = Some ''cc1'',
      dateRange = Some \<lparr>dr_from = Some (Date 1000), dr_to = Some (Date 2000)\<rparr>\<rparr>"

definition timeout_error :: js_error where
  "timeout_error = PostgrestError ''57014'' ''canceling statement due to statement timeout''"

definition two_files :: "js_file list" where
  "two_files =
     [\<lparr>f_name = ''bill.pdf'', f_type = ''application/pdf'', f_size = 10\<rparr>,
      \<lparr>f_name = ''room.jpg'', f_type = ''image/jpeg'', f_size = 20\<rparr>]"

definition second_upload_fails :: create_replies where
  "second_upload_fails =
     \<lparr>insert_fault = NoFault, fresh_id = ''e3'', clock = (\<lambda>i. 17),
      upload_error = (\<lambda>i. if i = 1 then Some (StorageError ''quota'') else None),
      settle_order = [1, 0], receipts_fault = NoFault\<rparr>"

definition alice :: auth_user where
  "alice = \<lparr>u_id = ''u1'', u_email = ''alice@example.org'', u_metadata_name = JStr ''Alice''\<rparr>"

section \<open>The auth context\<close>

lemma roles_agree: "roles_isAdmin v = (JStr ''admin'' \<in> set (roles_userRoles v))"
  by (cases v) (auto simp: roles_isAdmin_def roles_userRoles_def)

lemma adopt_profile_consistent: "admin_consistent (adopt_profile d s)"
  by (simp add: admin_consistent_def adopt_profile_def roles_agree)

lemma default_profile_consistent: "admin_consistent (default_profile s)"
  by (simp add: admin_consistent_def default_profile_def)

lemma admin_consistent_isLoading [simp]:
  "admin_consistent (s\<lparr>isLoading := v\<rparr>) = admin_consistent s"
  by (simp add: admin_consistent_def)

lemma try_block_consistent: "try_block b s = Inr s' \<Longrightarrow> admin_consistent s'"
  by (auto simp: try_block_def adopt_profile_consistent default_profile_consistent
      split: if_splits awaited.splits option.splits)

lemma fetch_settle_consistent: "admin_consistent (fetch_settle b s)"
  by (auto simp: fetch_settle_def default_profile_consistent try_block_consistent
      split: sum.splits)

lemma step_consistent: "admin_consistent s \<Longrightarrow> admin_consistent (step e s)"
proof (cases e)
  case (ProfileFetchSettled b)
  then show ?thesis by (simp add: fetch_settle_consistent)
qed (auto simp: getSession_then_def onAuthStateChange_def
        handleVisibility_def signOut_def call_fetchUserProfile_def admin_consistent_def Let_def
        split: option.splits)

lemma run_consistent: "admin_consistent s \<Longrightarrow> admin_consistent (run evs s)"
  unfolding run_def by (induction evs arbitrary: s) (simp_all add: step_consistent)

lemma startup_consistent: "admin_consistent startup"
  by (simp add: admin_consistent_def startup_def)

text \<open>
  C1. In every state the provider reaches from startup, whatever events arrive and
  whatever the backend answers, the admin flag is true exactly when the role collection
  \<open>R\<close> held in the state contains \<open>admin\<close>, and \<open>hasRole r\<close> is true exactly when
  \<open>admin\<close> is in \<open>R\<close> or \<open>r\<close> is in \<open>R\<close>.
\<close>

theorem hasRole_iff_admin_or_member:
  "isAdmin (run evs startup) = (JStr ''admin'' \<in> set (userRoles (run evs startup)))
   \<and> hasRole (run evs startup) r =
       (JStr ''admin'' \<in> set (userRoles (run evs startup))
        \<or> JStr r \<in> set (userRoles (run evs startup)))"
  using run_consistent [OF startup_consistent, of evs]
  by (simp add: admin_consistent_def hasRole_def)

text \<open>
  C9. Profile resolution ends with the loading flag cleared, for every user id, every
  starting state and every combination of answers: configuration missing, row found,
  row missing with the insert succeeding or failing, a read error, a response without
  data, and a rejection of any of the awaited calls.
\<close>

theorem fetchUserProfile_clears_loading:
  "isLoading (fetchUserProfile b userId s) = False"
  by (simp add: fetchUserProfile_def fetch_settle_def)

lemma fetch_settle_initialLoad [simp]: "initialLoad (fetch_settle b s) = initialLoad s"
  by (auto simp: fetch_settle_def try_block_def default_profile_def adopt_profile_def
      split: sum.splits if_splits awaited.splits option.splits)

lemma step_initialLoad: "initialLoad (step e s) = (initialLoad s \<and> \<not> is_auth_change e)"
  by (cases e)
     (auto simp: getSession_then_def onAuthStateChange_def
        handleVisibility_def signOut_def call_fetchUserProfile_def Let_def
        split: option.splits)

lemma run_snoc: "run (evs @ [e]) s = step e (run evs s)"
  by (simp add: run_def)

lemma run_initialLoad: "initialLoad (run evs s) = (initialLoad s \<and> \<not> list_ex is_auth_change evs)"
  by (induction evs rule: rev_induct) (auto simp: run_snoc step_initialLoad run_def)

lemma startup_initialLoad: "initialLoad startup"
  by (simp add: startup_def)

text \<open>
  C2. Let \<open>pre\<close> be the events since startup. If no auth-state-change event is among
  them, the next one is discarded: the state stays as it was (only the closure flag
  drops) and no profile fetch is started. If one is among them, the next one stores its
  session and user and, when a user is present, starts a profile fetch for that user.
\<close>

theorem first_auth_event_discarded:
  "(\<not> list_ex is_auth_change pre \<longrightarrow>
      run (pre @ [AuthStateChange ss]) startup = (run pre startup)\<lparr>initialLoad := False\<rparr>
      \<and> fetchCalls (run (pre @ [AuthStateChange ss]) startup) = fetchCalls (run pre startup))
   \<and> (list_ex is_auth_change pre \<longrightarrow>
      session (run (pre @ [AuthStateChange ss]) startup) = ss
      \<and> user (run (pre @ [AuthStateChange ss]) startup) = session_user ss
      \<and> fetchCalls (run (pre @ [AuthStateChange ss]) startup) =
          fetchCalls (run pre startup)
            @ (case session_user ss of None \<Rightarrow> [] | Some u \<Rightarrow> [u_id u]))"
  using run_initialLoad [of pre startup] startup_initialLoad
  by (auto simp: run_snoc onAuthStateChange_def call_fetchUserProfile_def Let_def
      split: option.splits)

theorem first_auth_event_discarded_witness:
  "run ([GetSessionResolved (Some \<lparr>s_user = Some alice\<rparr>)]
         @ [AuthStateChange (Some \<lparr>s_user = Some alice\<rparr>)]) startup
     = (run [GetSessionResolved (Some \<lparr>s_user = Some alice\<rparr>)] startup)\<lparr>initialLoad := False\<rparr>
   \<and> fetchCalls (run ([GetSessionResolved (Some \<lparr>s_user = Some alice\<rparr>)]
         @ [AuthStateChange (Some \<lparr>s_user = Some alice\<rparr>)]) startup) = [''u1'']
   \<and> fetchCalls (run ([AuthStateChange None] @ [AuthStateChange (Some \<lparr>s_user = Some alice\<rparr>)]) startup)
       = [''u1'']
   \<and> user (run ([AuthStateChange None] @ [AuthStateChange (Some \<lparr>s_user = Some alice\<rparr>)]) startup)
       = Some alice"
  using first_auth_event_discarded [of "[GetSessionResolved (Some \<lparr>s_user = Some alice\<rparr>)]"
          "Some \<lparr>s_user = Some alice\<rparr>"]
        first_auth_event_discarded [of "[AuthStateChange None]" "Some \<lparr>s_user = Some alice\<rparr>"]
  by (simp add: run_def startup_def getSession_then_def session_user_def alice_def
        call_fetchUserProfile_def onAuthStateChange_def)

section \<open>The data-access module\<close>

lemma issue_tables [simp]:
  "expenses (issue r d) = expenses d" "receipts (issue r d) = receipts d"
  "storage (issue r d) = storage d" "requests (issue r d) = requests d @ [r]"
  by (simp_all add: issue_def)

lemma effect_NoFault [simp]: "effect NoFault g d = g d"
  by (simp add: effect_def)

lemma effect_fault [simp]: "f \<noteq> NoFault \<Longrightarrow> effect f g d = d"
  by (simp add: effect_def)

subsection \<open>deleteExpense\<close>

lemma fault_error_None: "(fault_error f = None) = (f = NoFault)"
  by (cases f) (simp_all add: fault_error_def)

lemma delete_receipts_fails:
  "fault_error f1 = Some e \<Longrightarrow> deleteExpense f1 f2 i d = (Inl e, issue (DeleteReceipts i) d)"
  by (cases f1) (simp_all add: fault_error_def deleteExpense_def delete_receipts_def error_of_def)

lemma delete_receipts_first:
  "snd (deleteExpense NoFault f2 i d) = snd (delete_expense f2 i (snd (delete_receipts NoFault i d)))"
  by (cases f2) (simp_all add: deleteExpense_def delete_receipts_def delete_expense_def error_of_def)

lemma delete_receipts_tables:
  "receipts (snd (delete_receipts NoFault i d)) = filter (\<lambda>r. r_expense_id r \<noteq> Some i) (receipts d)"
  "expenses (snd (delete_receipts NoFault i d)) = expenses d"
  "requests (snd (delete_receipts NoFault i d)) = requests d @ [DeleteReceipts i]"
  by (simp_all add: delete_receipts_def)

lemma delete_expense_tables:
  "receipts (snd (delete_expense f i d)) = receipts d"
  "requests (snd (delete_expense f i d)) = requests d @ [DeleteExpense i]"
  "expenses (snd (delete_expense NoFault i d)) = filter (\<lambda>x. e_id x \<noteq> Some i) (expenses d)"
  by (cases f; simp add: delete_expense_def)+

lemma delete_both_succeed: "fst (deleteExpense NoFault NoFault i d) = Inr True"
  by (simp add: deleteExpense_def delete_receipts_def delete_expense_def error_of_def)

text \<open>
  C3. For every expense id and backend state: when the deletion of the receipts fails
  with \<open>e\<close>, \<open>deleteExpense\<close> raises \<open>e\<close>, the only request sent is the deletion of the
  receipts, and the expense rows are unchanged. When it succeeds, the deletion of the
  expense is the next request, and it is sent to a backend in which no receipt refers to
  the expense any more while the expense rows are still the original ones; when that
  succeeds too, the result is \<open>true\<close> and the expense row is gone.
\<close>

theorem deleteExpense_receipts_first:
  "(fault_error f1 = Some e \<longrightarrow>
      fst (deleteExpense f1 f2 i d) = Inl e
      \<and> expenses (snd (deleteExpense f1 f2 i d)) = expenses d
      \<and> requests (snd (deleteExpense f1 f2 i d)) = requests d @ [DeleteReceipts i])
   \<and> (fault_error f1 = None \<longrightarrow>
      requests (snd (deleteExpense f1 f2 i d)) = requests d @ [DeleteReceipts i, DeleteExpense i]
      \<and> snd (deleteExpense f1 f2 i d) = snd (delete_expense f2 i (snd (delete_receipts f1 i d)))
      \<and> receipts (snd (delete_receipts f1 i d)) = filter (\<lambda>r. r_expense_id r \<noteq> Some i) (receipts d)
      \<and> expenses (snd (delete_receipts f1 i d)) = expenses d
      \<and> receipts (snd (deleteExpense f1 f2 i d)) = filter (\<lambda>r. r_expense_id r \<noteq> Some i) (receipts d)
      \<and> (fault_error f2 = None \<longrightarrow>
            fst (deleteExpense f1 f2 i d) = Inr True
            \<and> expenses (snd (deleteExpense f1 f2 i d)) = filter (\<lambda>x. e_id x \<noteq> Some i) (expenses d)))"
  by (simp add: fault_error_None delete_receipts_fails delete_receipts_first
        delete_receipts_tables delete_expense_tables delete_both_succeed)

theorem deleteExpense_receipts_first_witness:
  "fst (deleteExpense (ErrorReply timeout_error) NoFault ''e1'' office) = Inl timeout_error
   \<and> expenses (snd (deleteExpense (ErrorReply timeout_error) NoFault ''e1'' office)) = [taxi, lunch]
   \<and> fst (deleteExpense NoFault NoFault ''e1'' office) = Inr True
   \<and> expenses (snd (deleteExpense NoFault NoFault ''e1'' office)) = [lunch]
   \<and> receipts (snd (deleteExpense NoFault NoFault ''e1'' office)) = [lunch_receipt]"
proof -
  have h1: "fault_error (ErrorReply timeout_error) = Some timeout_error"
    and h2: "fault_error NoFault = None"
    by (simp_all add: fault_error_def)
  have t: "expenses office = [taxi, lunch]"
    "receipts office = [taxi_receipt, lunch_receipt]"
    "filter (\<lambda>x. e_id x \<noteq> Some ''e1'') [taxi, lunch] = [lunch]"
    "filter (\<lambda>r. r_expense_id r \<noteq> Some ''e1'') [taxi_receipt, lunch_receipt] = [lunch_receipt]"
    by (simp_all add: office_def taxi_def lunch_def taxi_receipt_def lunch_receipt_def)
  from h1 deleteExpense_receipts_first
         [of "ErrorReply timeout_error" timeout_error NoFault "''e1''" office]
  have a: "fst (deleteExpense (ErrorReply timeout_error) NoFault ''e1'' office) = Inl timeout_error"
    "expenses (snd (deleteExpense (ErrorReply timeout_error) NoFault ''e1'' office)) = expenses office"
    by blast+
  from h2 deleteExpense_receipts_first [of NoFault timeout_error NoFault "''e1''" office]
  have b: "fst (deleteExpense NoFault NoFault ''e1'' office) = Inr True"
    "expenses (snd (deleteExpense NoFault NoFault ''e1'' office))
       = filter (\<lambda>x. e_id x \<noteq> Some ''e1'') (expenses office)"
    "receipts (snd (deleteExpense NoFault NoFault ''e1'' office))
       = filter (\<lambda>r. r_expense_id r \<noteq> Some ''e1'') (receipts office)"
    by blast+
  show ?thesis
    by (simp only: a b t simp_thms)
qed

subsection \<open>updateExpenseStatus and updatePaymentStatus\<close>

lemma update_expense_expenses:
  "expenses (snd (update_expense f p i d)) =
     (if f = NoFault then map (update_row p i) (expenses d) else expenses d)"
  by (simp add: update_expense_def effect_def)

lemma updateExpenseStatus_snd:
  "snd (updateExpenseStatus f now i st rr d) = snd (update_expense f (status_update_data now st rr) i d)"
  by (cases f) (simp_all add: updateExpenseStatus_def update_expense_def answer_def)

lemma updatePaymentStatus_snd:
  "snd (updatePaymentStatus f n1 n2 i p d) = snd (update_expense f (payment_update_data n1 n2 p) i d)"
  by (cases f) (simp_all add: updatePaymentStatus_def update_expense_def answer_def)

lemma payment_row_invariant:
  "reason_invariant x \<Longrightarrow> reason_invariant (update_row (payment_update_data n1 n2 p) i x)"
  by (simp add: reason_invariant_def update_row_def apply_patch_def payment_update_data_def)

lemma status_row_invariant:
  "reason_invariant x \<Longrightarrow> st = Rejected \<or> (e_id x = Some i \<longrightarrow> e_rejection_reason x = None) \<Longrightarrow>
   reason_invariant (update_row (status_update_data now st rr) i x)"
  by (auto simp: reason_invariant_def update_row_def apply_patch_def status_update_data_def Let_def)

lemma status_row_reason:
  "st \<noteq> Rejected \<Longrightarrow>
   e_rejection_reason (update_row (status_update_data now st rr) i x) = e_rejection_reason x"
  by (simp add: update_row_def apply_patch_def status_update_data_def Let_def)

text \<open>
  C4, as stated, fails: approving the rejected expense \<open>e1\<close> of the sample backend leaves
  its rejection reason in place, so the row no longer satisfies the invariant.
\<close>

theorem updateExpenseStatus_keeps_reason_counterexample:
  "list_all reason_invariant (expenses office)
   \<and> \<not> list_all reason_invariant
         (expenses (snd (updateExpenseStatus NoFault 5000 ''e1'' Approved None office)))"
  by (simp add: office_def taxi_def lunch_def reason_invariant_def updateExpenseStatus_def
        update_expense_def answer_def effect_def issue_def status_update_data_def
        update_row_def apply_patch_def)

text \<open>
  C4, amended. For every backend whose expense rows satisfy the invariant (a rejection
  reason only on a rejected expense): \<open>updatePaymentStatus\<close> preserves the invariant,
  and \<open>updateExpenseStatus\<close> preserves it when the new status is \<open>rejected\<close> or the
  expense it addresses has no rejection reason.
\<close>

theorem updates_and_rejection_reason:
  "(list_all reason_invariant (expenses d) \<longrightarrow>
      list_all reason_invariant (expenses (snd (updatePaymentStatus f n1 n2 i p d))))
   \<and> (list_all reason_invariant (expenses d)
        \<and> (st = Rejected \<or> list_all (\<lambda>x. e_id x \<noteq> Some i \<or> e_rejection_reason x = None) (expenses d)) \<longrightarrow>
      list_all reason_invariant (expenses (snd (updateExpenseStatus f now i st rr d))))"
proof (intro conjI impI)
  assume "list_all reason_invariant (expenses d)"
  then show "list_all reason_invariant (expenses (snd (updatePaymentStatus f n1 n2 i p d)))"
    by (simp add: updatePaymentStatus_snd update_expense_expenses list_all_iff payment_row_invariant)
next
  assume "list_all reason_invariant (expenses d)
        \<and> (st = Rejected \<or> list_all (\<lambda>x. e_id x \<noteq> Some i \<or> e_rejection_reason x = None) (expenses d))"
  then show "list_all reason_invariant (expenses (snd (updateExpenseStatus f now i st rr d)))"
    by (auto simp: updateExpenseStatus_snd update_expense_expenses list_all_iff
        intro!: status_row_invariant)
qed

theorem updates_and_rejection_reason_witness:
  "list_all reason_invariant (expenses (snd (updatePaymentStatus NoFault 5000 5001 ''e1'' True office)))
   \<and> list_all reason_invariant
        (expenses (snd (updateExpenseStatus NoFault 5000 ''e2'' Approved None office)))
   \<and> list_all reason_invariant
        (expenses (snd (updateExpenseStatus NoFault 5000 ''e1'' Rejected (Some ''late'') office)))
   \<and> map e_status (expenses (snd (updateExpenseStatus NoFault 5000 ''e2'' Approved None office)))
       = [Rejected, Approved]"
proof -
  have inv: "list_all reason_invariant (expenses office)"
    by (simp add: office_def reason_invariant_def taxi_def lunch_def)
  have c: "list_all (\<lambda>x. e_id x \<noteq> Some ''e2'' \<or> e_rejection_reason x = None) (expenses office)"
    by (simp add: office_def taxi_def lunch_def)
  from inv c
    updates_and_rejection_reason [where d = office and f = NoFault and ?n1.0 = 5000
      and ?n2.0 = 5001 and i = "''e2''" and p = True and st = Approved and now = 5000 and rr = None]
  have a: "list_all reason_invariant
        (expenses (snd (updateExpenseStatus NoFault 5000 ''e2'' Approved None office)))"
    by blast
  from inv
    updates_and_rejection_reason [where d = office and f = NoFault and ?n1.0 = 5000
      and ?n2.0 = 5001 and i = "''e1''" and p = True and st = Rejected and now = 5000
      and rr = "Some ''late''"]
  have b: "list_all reason_invariant (expenses (snd (updatePaymentStatus NoFault 5000 5001 ''e1'' True office)))"
    "list_all reason_invariant
        (expenses (snd (updateExpenseStatus NoFault 5000 ''e1'' Rejected (Some ''late'') office)))"
    by blast+
  have m: "map e_status (expenses (snd (updateExpenseStatus NoFault 5000 ''e2'' Approved None office)))
       = [Rejected, Approved]"
    by (simp add: office_def taxi_def lunch_def updateExpenseStatus_def
        update_expense_def answer_def effect_def issue_def status_update_data_def
        update_row_def apply_patch_def)
  show ?thesis
    by (simp only: a b m simp_thms)
qed

subsection \<open>fetchExpenses: backend failures\<close>

lemma build_query_no_filters:
  "build_query no_filters = Inr \<lparr>clauses = [], order_by = Some (''submitted_date'', False)\<rparr>"
  by (simp add: build_query_def no_filters_def search_filter_def eq_filter_def
        date_filter_def range_from_def range_to_def)

text \<open>
  C5, as stated, fails: with no filters and a backend that answers the query with an
  error, \<open>fetchExpenses\<close> raises that error; it does not return the empty sequence.
\<close>

theorem fetchExpenses_swallows_error_counterexample:
  "fetchExpenses (select_expenses (\<lambda>t e. False) (ErrorReply timeout_error) office) no_filters
     = Inl timeout_error
   \<and> fetchExpenses (select_expenses (\<lambda>t e. False) (ErrorReply timeout_error) office) no_filters
     \<noteq> Inr []"
  by (simp add: fetchExpenses_def build_query_no_filters select_expenses_def answer_def)

text \<open>
  C5, amended. For every filter object from which the query \<open>q\<close> is built: if the
  backend call for \<open>q\<close> rejects with \<open>e\<close>, or answers with the error \<open>e\<close>,
  \<open>fetchExpenses\<close> raises \<open>e\<close>; it returns the empty sequence when the backend answers
  with neither an error nor data.
\<close>

theorem fetchExpenses_propagates_errors:
  "build_query f = Inr q \<Longrightarrow>
     (backend q = Thrown e \<longrightarrow> fetchExpenses backend f = Inl e)
     \<and> (backend q = Resolved r \<and> error r = Some e \<longrightarrow> fetchExpenses backend f = Inl e)
     \<and> (backend q = Resolved r \<and> error r = None \<and> data r = None \<longrightarrow>
          fetchExpenses backend f = Inr [])"
  by (simp add: fetchExpenses_def)

theorem fetchExpenses_propagates_errors_witness:
  "fetchExpenses (\<lambda>q. Thrown timeout_error) no_filters = Inl timeout_error
   \<and> fetchExpenses (\<lambda>q. Resolved \<lparr>data = None, error = Some timeout_error\<rparr>) no_filters
       = Inl timeout_error
   \<and> fetchExpenses (\<lambda>q. Resolved \<lparr>data = None, error = None\<rparr>) no_filters = Inr []"
  using fetchExpenses_propagates_errors [OF build_query_no_filters,
          of "\<lambda>q. Thrown timeout_error" timeout_error "\<lparr>data = None, error = None\<rparr>"]
        fetchExpenses_propagates_errors [OF build_query_no_filters,
          of "\<lambda>q. Resolved \<lparr>data = None, error = Some timeout_error\<rparr>" timeout_error
             "\<lparr>data = None, error = Some timeout_error\<rparr>"]
        fetchExpenses_propagates_errors [OF build_query_no_filters,
          of "\<lambda>q. Resolved \<lparr>data = None, error = None\<rparr>" timeout_error
             "\<lparr>data = None, error = None\<rparr>"]
  by simp

subsection \<open>createExpense\<close>

lemma upload_tables [simp]:
  "expenses (upload err path fl d) = expenses d" "receipts (upload err path fl d) = receipts d"
  by (cases err; simp add: upload_def)+

lemma upload_all_tables:
  "expenses (upload_all b ed i files d) = expenses d \<and> receipts (upload_all b ed i files d) = receipts d"
  by (induction files arbitrary: i d) simp_all

lemma first_rejection_some:
  assumes "i < n" "up i = Some e"
  shows "\<exists>j e'. j < n \<and> up j = Some e' \<and> first_rejection up n order = Some e'"
proof -
  let ?P = "\<lambda>i. i < n \<and> up i \<noteq> None"
  from assms have "i \<in> set (filter ?P (order @ [0..<n]))" by simp
  then have "filter ?P (order @ [0..<n]) \<noteq> []"
    by (metis empty_iff empty_set)
  then obtain j rest where js: "filter ?P (order @ [0..<n]) = j # rest"
    by (meson neq_Nil_conv)
  then have "j \<in> set (filter ?P (order @ [0..<n]))" by simp
  then have "j < n" "up j \<noteq> None" by auto
  then obtain e' where "up j = Some e'" by auto
  with js \<open>j < n\<close> show ?thesis
    by (auto simp: first_rejection_def)
qed

lemma insert_expense_ok:
  "insert_expense NoFault fresh x d =
     (Resolved \<lparr>data = Some (stored_row fresh x), error = None\<rparr>,
      (issue (InsertExpense x) d)\<lparr>expenses := expenses d @ [stored_row fresh x]\<rparr>)"
  by (simp add: insert_expense_def answer_def effect_def)

text \<open>
  C6. For every expense and file list in which some upload fails, once the expense row
  has been inserted: \<open>createExpense\<close> raises the error of one of the failed uploads, the
  inserted expense row is still present afterwards, and the receipt rows are the ones
  there were before.
\<close>

theorem createExpense_upload_failure:
  assumes "insert_fault b = NoFault" and "i < length files" and "upload_error b i = Some e"
  shows "(\<exists>j e'. j < length files \<and> upload_error b j = Some e'
            \<and> fst (createExpense b x files d) = Inl e')
    \<and> expenses (snd (createExpense b x files d)) = expenses d @ [stored_row (fresh_id b) x]
    \<and> receipts (snd (createExpense b x files d)) = receipts d"
proof -
  from assms(2,3) obtain j e' where j: "j < length files" "upload_error b j = Some e'"
    "first_rejection (upload_error b) (length files) (settle_order b) = Some e'"
    using first_rejection_some by blast
  let ?d1 = "(issue (InsertExpense x) d)\<lparr>expenses := expenses d @ [stored_row (fresh_id b) x]\<rparr>"
  from assms(2) have ne: "0 < length files" by (cases files) simp_all
  from assms(1) ne j(3)
  have c: "createExpense b x files d
             = (Inl e', upload_all b (stored_row (fresh_id b) x) 0 files ?d1)"
    by (simp add: createExpense_def insert_expense_ok Let_def)
  show ?thesis
    using j(1,2) by (auto simp: c upload_all_tables)
qed

theorem createExpense_upload_failure_witness:
  "fst (createExpense second_upload_fails hotel two_files office) = Inl (StorageError ''quota'')
   \<and> expenses (snd (createExpense second_upload_fails hotel two_files office))
       = [taxi, lunch, hotel\<lparr>e_id := Some ''e3''\<rparr>]
   \<and> receipts (snd (createExpense second_upload_fails hotel two_files office))
       = [taxi_receipt, lunch_receipt]"
proof -
  have h: "insert_fault second_upload_fails = NoFault" "1 < length two_files"
    "upload_error second_upload_fails 1 = Some (StorageError ''quota'')"
    by (simp_all add: second_upload_fails_def two_files_def)
  have u: "upload_error second_upload_fails j = Some e' \<Longrightarrow> e' = StorageError ''quota''" for j e'
    by (simp add: second_upload_fails_def split: if_splits)
  have t: "expenses office @ [stored_row (fresh_id second_upload_fails) hotel]
             = [taxi, lunch, hotel\<lparr>e_id := Some ''e3''\<rparr>]"
    "receipts office = [taxi_receipt, lunch_receipt]"
    by (simp_all add: office_def stored_row_def second_upload_fails_def hotel_def)
  from createExpense_upload_failure [OF h, of hotel office] u t
  show ?thesis by auto
qed

subsection \<open>fetchExpenses: the date range\<close>

lemma trim_Nil [simp]: "trim [] = []"
  by (simp add: trim_def)

lemma search_filter_clauses:
  "clauses (search_filter v q) =
     clauses q @ (case active (map_option trim v) of
                    None \<Rightarrow> [] | Some t \<Rightarrow> [Or_filter (search_text t)])"
  "order_by (search_filter v q) = order_by q"
  by (cases v; auto simp: search_filter_def active_def add_clause_def)+

lemma eq_filter_clauses:
  "clauses (eq_filter c v q) =
     clauses q @ (case active v of None \<Rightarrow> [] | Some s \<Rightarrow> [Eq_filter c (QStr s)])"
  "order_by (eq_filter c v q) = order_by q"
  by (cases v; auto simp: eq_filter_def active_def add_clause_def)+

lemma build_query_range:
  assumes "dateRange f = Some \<lparr>dr_from = Some (Date a), dr_to = Some (Date b)\<rparr>"
  shows "build_query f =
     Inr \<lparr>clauses = text_clauses f
             @ [Gte_filter ''submitted_date'' (QTime a), Lte_filter ''submitted_date'' (QTime b)],
          order_by = Some (''submitted_date'', False)\<rparr>"
  using assms
  by (simp add: build_query_def date_filter_def range_from_def range_to_def add_clause_def
        search_filter_clauses eq_filter_clauses text_clauses_def)

lemma holds_text_clauses:
  "list_all (holds osem e) (text_clauses f) =
     ((case active (map_option trim (search f)) of
            None \<Rightarrow> True | Some t \<Rightarrow> osem (search_text t) e)
      \<and> (case active (status f) of
            None \<Rightarrow> True | Some s \<Rightarrow> status_text (e_status e) = s)
      \<and> (case active (category f) of
            None \<Rightarrow> True | Some c \<Rightarrow> e_category_id e = c)
      \<and> (case active (costCenter f) of
            None \<Rightarrow> True | Some c \<Rightarrow> e_cost_center_id e = c))"
  by (simp add: text_clauses_def column_def split: option.splits)

lemma holds_range:
  "list_all (holds osem e)
     [Gte_filter ''submitted_date'' (QTime a), Lte_filter ''submitted_date'' (QTime b)]
   = (case e_submitted_date e of None \<Rightarrow> False | Some t \<Rightarrow> a \<le> t \<and> t \<le> b)"
  by (simp add: column_def split: option.splits)

lemma holds_wanted:
  "list_all (holds osem e)
     (text_clauses f
        @ [Gte_filter ''submitted_date'' (QTime a), Lte_filter ''submitted_date'' (QTime b)])
   = wanted osem f a b e"
  unfolding list_all_append holds_text_clauses holds_range wanted_def by blast

lemma wanted_has_date: "wanted osem f a b e \<Longrightarrow> has_date e"
  by (simp add: wanted_def has_date_def split: option.splits)

lemma order_rows_desc:
  assumes "list_all has_date rows"
  shows "order_rows (Some (''submitted_date'', False)) rows = sort_key (\<lambda>e. - date_of e) rows"
proof -
  from assms have "filter has_date rows = rows" "filter (\<lambda>e. \<not> has_date e) rows = []"
    by (simp_all add: list_all_iff)
  then show ?thesis by (simp add: order_rows_def)
qed

lemma sorted_desc: "sorted_wrt (\<lambda>x y. date_of y \<le> date_of x) (sort_key (\<lambda>e. - date_of e) rows)"
proof -
  have "sorted (map (\<lambda>e. - date_of e) (sort_key (\<lambda>e. - date_of e) rows))"
    by (rule sorted_sort_key)
  then show ?thesis by (simp add: sorted_map)
qed

text \<open>
  C7. For every backend state and every filter object whose date range has both bounds
  \<open>a\<close> and \<open>b\<close>, a listing that the backend answers returns exactly the expense rows
  submitted within \<open>[a, b]\<close>, bounds included, that pass the other active filters
  (each as often as it is stored), ordered by submission date, latest first.
\<close>

theorem fetchExpenses_date_range:
  assumes "dateRange f = Some \<lparr>dr_from = Some (Date a), dr_to = Some (Date b)\<rparr>"
  shows "\<exists>rows. fetchExpenses (select_expenses osem NoFault d) f = Inr rows
           \<and> mset rows = mset (filter (wanted osem f a b) (expenses d))
           \<and> sorted_wrt (\<lambda>x y. date_of y \<le> date_of x) rows
           \<and> list_all has_date rows"
proof -
  let ?sel = "filter (wanted osem f a b) (expenses d)"
  have hd: "list_all has_date ?sel"
    by (auto simp: list_all_iff intro: wanted_has_date)
  have "fetchExpenses (select_expenses osem NoFault d) f = Inr (sort_key (\<lambda>e. - date_of e) ?sel)"
    by (simp add: fetchExpenses_def build_query_range [OF assms] select_expenses_def answer_def
          holds_wanted order_rows_desc [OF hd] del: list_all_append list.pred_inject)
  moreover have "list_all has_date (sort_key (\<lambda>e. - date_of e) ?sel)"
    using hd by (simp add: list_all_iff)
  ultimately show ?thesis
    using sorted_desc by auto
qed

theorem fetchExpenses_date_range_witness:
  "(\<exists>rows. fetchExpenses (select_expenses (\<lambda>t e. False) NoFault office) may_filters = Inr rows
        \<and> mset rows = {#taxi, lunch#}
        \<and> sorted_wrt (\<lambda>x y. date_of y \<le> date_of x) rows)
   \<and> fetchExpenses (select_expenses (\<lambda>t e. False) NoFault office) may_filters = Inr [lunch, taxi]"
proof -
  have h: "dateRange may_filters = Some \<lparr>dr_from = Some (Date 1000), dr_to = Some (Date 2000)\<rparr>"
    by (simp add: may_filters_def)
  have t: "trim '' '' = []"
    by (simp add: trim_def is_space_def)
  have w: "filter (wanted (\<lambda>t e. False) may_filters 1000 2000) (expenses office) = [taxi, lunch]"
    by (simp add: office_def wanted_def may_filters_def taxi_def lunch_def active_def t)
  from fetchExpenses_date_range [OF h, of "\<lambda>t e. False" office]
  obtain rows where r: "fetchExpenses (select_expenses (\<lambda>t e. False) NoFault office) may_filters = Inr rows"
    "mset rows = mset (filter (wanted (\<lambda>t e. False) may_filters 1000 2000) (expenses office))"
    "sorted_wrt (\<lambda>x y. date_of y \<le> date_of x) rows"
    by blast
  have fs: "search may_filters = Some '' ''" "status may_filters = None"
    "category may_filters = None" "costCenter may_filters = Some ''cc1''"
    by (simp_all add: may_filters_def)
  have q: "build_query may_filters =
      Inr \<lparr>clauses = [Eq_filter ''cost_center_id'' (QStr ''cc1''),
                        Gte_filter ''submitted_date'' (QTime 1000),
                        Lte_filter ''submitted_date'' (QTime 2000)],
           order_by = Some (''submitted_date'', False)\<rparr>"
    by (simp add: build_query_range [OF h] text_clauses_def fs active_def t)
  have e: "fetchExpenses (select_expenses (\<lambda>t e. False) NoFault office) may_filters = Inr [lunch, taxi]"
    by (simp add: fetchExpenses_def q select_expenses_def answer_def office_def column_def
          taxi_def lunch_def order_rows_def has_date_def date_of_def)
  from r w e show ?thesis by simp
qed

subsection \<open>fetchCategories and fetchCostCenters\<close>

lemma fetchCategories_failed: "failed (backend categories_query) \<Longrightarrow> fetchCategories backend = []"
  by (auto simp: failed_def fetchCategories_def split: awaited.splits option.splits)

lemma fetchCostCenters_failed: "failed (backend cost_centers_query) \<Longrightarrow> fetchCostCenters backend = []"
  by (auto simp: failed_def fetchCostCenters_def split: awaited.splits option.splits)

lemma select_named_fault: "f \<noteq> NoFault \<Longrightarrow> failed (select_named f d q)"
  by (cases f) (simp_all add: failed_def select_named_def)

lemma select_categories:
  "select_named NoFault d categories_query
     = Resolved \<lparr>data = Some (sort_key n_name (categories d)), error = None\<rparr>"
  by (simp add: select_named_def categories_query_def named_table_def order_named_def)

lemma select_cost_centers:
  "select_named NoFault d cost_centers_query
     = Resolved \<lparr>data = Some (sort_key n_name (cost_centers d)), error = None\<rparr>"
  by (simp add: select_named_def cost_centers_query_def named_table_def order_named_def)

lemma fetchCategories_ok: "fetchCategories (select_named NoFault d) = sort_key n_name (categories d)"
  by (simp add: fetchCategories_def select_categories)

lemma fetchCostCenters_ok: "fetchCostCenters (select_named NoFault d) = sort_key n_name (cost_centers d)"
  by (simp add: fetchCostCenters_def select_cost_centers)

text \<open>
  C8. \<open>fetchCategories\<close> and \<open>fetchCostCenters\<close> have no error result. For every
  backend state: when the read a function sends fails, by rejecting or by being
  answered with an error, the function returns the empty sequence; when the backend
  answers the read, \<open>fetchCategories\<close> returns the rows of \<open>categories\<close> and
  \<open>fetchCostCenters\<close> the rows of \<open>cost_centers\<close>, all of them, ordered by name.
\<close>

theorem categories_and_cost_centers:
  "(failed (backend categories_query) \<longrightarrow> fetchCategories backend = [])
   \<and> (failed (backend cost_centers_query) \<longrightarrow> fetchCostCenters backend = [])
   \<and> (f \<noteq> NoFault \<longrightarrow>
        fetchCategories (select_named f d) = [] \<and> fetchCostCenters (select_named f d) = [])
   \<and> sorted (map n_name (fetchCategories (select_named NoFault d)))
   \<and> mset (fetchCategories (select_named NoFault d)) = mset (categories d)
   \<and> sorted (map n_name (fetchCostCenters (select_named NoFault d)))
   \<and> mset (fetchCostCenters (select_named NoFault d)) = mset (cost_centers d)"
  by (simp add: fetchCategories_failed fetchCostCenters_failed select_named_fault
        fetchCategories_ok fetchCostCenters_ok)

theorem categories_and_cost_centers_witness:
  "fetchCategories (\<lambda>q. Thrown timeout_error) = []
   \<and> fetchCostCenters (\<lambda>q. Thrown timeout_error) = []
   \<and> fetchCategories (select_named (ErrorReply timeout_error) office) = []
   \<and> fetchCostCenters (select_named (ErrorReply timeout_error) office) = []
   \<and> map n_name (fetchCategories (select_named NoFault office)) = [''Meals'', ''Travel'']
   \<and> map n_name (fetchCostCenters (select_named NoFault office)) = [''Research'', ''Sales'']"
proof -
  have h: "failed (Thrown timeout_error :: named_row list response awaited)"
    "ErrorReply timeout_error \<noteq> NoFault"
    by (simp_all add: failed_def)
  from h categories_and_cost_centers
           [of "\<lambda>q. Thrown timeout_error" "ErrorReply timeout_error" office]
  have a: "fetchCategories (\<lambda>q. Thrown timeout_error) = []"
    "fetchCostCenters (\<lambda>q. Thrown timeout_error) = []"
    "fetchCategories (select_named (ErrorReply timeout_error) office) = []"
    "fetchCostCenters (select_named (ErrorReply timeout_error) office) = []"
    by blast+
  have t: "categories office = [\<lparr>n_id = ''c1'', n_name = ''Travel''\<rparr>, \<lparr>n_id = ''c2'', n_name = ''Meals''\<rparr>]"
    "cost_centers office = [\<lparr>n_id = ''cc2'', n_name = ''Sales''\<rparr>, \<lparr>n_id = ''cc1'', n_name = ''Research''\<rparr>]"
    by (simp_all add: office_def)
  have b: "map n_name (fetchCategories (select_named NoFault office)) = [''Meals'', ''Travel'']"
    "map n_name (fetchCostCenters (select_named NoFault office)) = [''Research'', ''Sales'']"
    by (simp_all add: fetchCategories_def fetchCostCenters_def select_categories
          select_cost_centers t)
  show ?thesis using a b by simp
qed

subsection \<open>fetchExpenses: blank filters\<close>

lemma trim_blank: "list_all is_space s \<Longrightarrow> trim s = []"
proof -
  assume "list_all is_space s"
  then have d: "dropWhile is_space s = []"
    by (simp add: list_all_iff)
  show ?thesis
    by (simp only: trim_def d rev.simps dropWhile.simps)
qed

lemma search_filter_omit:
  "search_filter (case v of None \<Rightarrow> None | Some s \<Rightarrow> if list_all is_space s then None else Some s) q
     = search_filter v q"
  by (cases v) (simp_all add: search_filter_def trim_blank)

lemma eq_filter_omit: "eq_filter c (if v = Some [] then None else v) q = eq_filter c v q"
  by (cases v) (simp_all add: eq_filter_def)

lemma omit_blank_fields:
  "search (omit_blank f) =
     (case search f of None \<Rightarrow> None | Some s \<Rightarrow> if list_all is_space s then None else Some s)"
  "status (omit_blank f) = (if status f = Some [] then None else status f)"
  "category (omit_blank f) = (if category f = Some [] then None else category f)"
  "costCenter (omit_blank f) = (if costCenter f = Some [] then None else costCenter f)"
  "dateRange (omit_blank f) = dateRange f"
  by (simp_all add: omit_blank_def)

text \<open>
  C10. For every filter object, leaving out its blank fields (an empty status, category
  or cost centre, a search text that is empty or all whitespace) changes neither the
  query that \<open>fetchExpenses\<close> builds nor, on any backend, what it returns.
\<close>

theorem blank_filters_are_absent:
  "build_query (omit_blank f) = build_query f
   \<and> fetchExpenses backend (omit_blank f) = fetchExpenses backend f"
proof -
  have "build_query (omit_blank f) = build_query f"
    unfolding build_query_def omit_blank_fields search_filter_omit eq_filter_omit ..
  then show ?thesis by (simp add: fetchExpenses_def)
qed

theorem blank_filters_are_absent_witness:
  "omit_blank blank_filters = no_filters
   \<and> build_query blank_filters = build_query no_filters
   \<and> build_query blank_filters = Inr \<lparr>clauses = [], order_by = Some (''submitted_date'', False)\<rparr>"
proof -
  have o: "omit_blank blank_filters = no_filters"
    by (simp add: omit_blank_def blank_filters_def no_filters_def is_space_def)
  from blank_filters_are_absent [of blank_filters] o
  have "build_query blank_filters = build_query no_filters"
    by simp
  with o show ?thesis
    by (simp add: build_query_no_filters)
qed

end
